theory Spec2Isabelle
  imports Complex_Main "HOL-Library.Multiset" "HOL-Library.Product_Lexorder"
    "HOL-Library.Char_ord" "HOL-Library.List_Lexorder"
begin

section \<open>Text\<close>

text \<open>
  A Python \<open>str\<close> is modelled as a \<open>string\<close>, one \<open>char\<close> per character. The
  character classes below are Python's on ASCII text (what \<open>str.strip\<close>,
  \<open>str.upper\<close>, \<open>\d\<close>, \<open>\s\<close> and \<open>\w\<close> do there); a character outside ASCII
  belongs to no class and has no case. The rupee sign of the sources is written as the
  bytes the source files hold.
\<close>

definition is_digit :: "char \<Rightarrow> bool" where
  "is_digit c = (48 \<le> (of_char c :: nat) \<and> (of_char c :: nat) \<le> 57)"

definition is_upper :: "char \<Rightarrow> bool" where
  "is_upper c = (65 \<le> (of_char c :: nat) \<and> (of_char c :: nat) \<le> 90)"

definition is_lower :: "char \<Rightarrow> bool" where
  "is_lower c = (97 \<le> (of_char c :: nat) \<and> (of_char c :: nat) \<le> 122)"

definition is_space :: "char \<Rightarrow> bool" where
  "is_space c = (of_char c \<in> {9, 10, 11, 12, 13, 28, 29, 30, 31, 32 :: nat})"

definition is_word :: "char \<Rightarrow> bool" where
  "is_word c = (is_digit c \<or> is_upper c \<or> is_lower c \<or> c = CHR ''_'')"

definition to_upper :: "char \<Rightarrow> char" where
  "to_upper c = (if is_lower c then char_of (of_char c - (32::nat)) else c)"

definition to_lower :: "char \<Rightarrow> char" where
  "to_lower c = (if is_upper c then char_of (of_char c + (32::nat)) else c)"

definition upper :: "string \<Rightarrow> string" where
  "upper s = map to_upper s"

definition lower :: "string \<Rightarrow> string" where
  "lower s = map to_lower s"

definition strip :: "string \<Rightarrow> string" where
  "strip s = rev (dropWhile is_space (rev (dropWhile is_space s)))"

fun startswith :: "string \<Rightarrow> string \<Rightarrow> bool" where
  "startswith s [] = True"
| "startswith [] (p # ps) = False"
| "startswith (c # cs) (p # ps) = (c = p \<and> startswith cs ps)"

definition endswith :: "string \<Rightarrow> string \<Rightarrow> bool" where
  "endswith s p = startswith (rev s) (rev p)"

text \<open>\<open>sub in s\<close>\<close>

fun contains :: "string \<Rightarrow> string \<Rightarrow> bool" where
  "contains [] sub = (sub = [])"
| "contains (c # cs) sub = (startswith (c # cs) sub \<or> contains cs sub)"

text \<open>\<open>s.replace(old, new)\<close>: the occurrences of \<open>old\<close>, left to right, not overlapping.\<close>

function replace :: "string \<Rightarrow> string \<Rightarrow> string \<Rightarrow> string" where
  "replace old new [] = (if old = [] then new else [])"
| "replace old new (c # cs) =
     (if old = [] then new @ c # replace old new cs
      else if startswith (c # cs) old then new @ replace old new (drop (length old) (c # cs))
      else c # replace old new cs)"
  by pat_completeness auto
termination
  by (relation "measure (\<lambda>(old, new, s). length s)") auto

text \<open>\<open>s.split(sep)\<close> for a separator of one character.\<close>

fun split :: "char \<Rightarrow> string \<Rightarrow> string list" where
  "split sep [] = [[]]"
| "split sep (c # cs) =
     (if c = sep then [] # split sep cs
      else (case split sep cs of
              [] \<Rightarrow> [[c]]
            | w # ws \<Rightarrow> (c # w) # ws))"

section \<open>Numbers\<close>

text \<open>
  A Python \<open>float\<close> is an IEEE 754 double. \<open>Fin neg m e\<close> is the finite double of
  value \<open>m * 2 ^ e\<close>, negative when \<open>neg\<close>, with its mantissa \<open>m\<close> below \<open>2 ^ 53\<close> and,
  unless the exponent is the least one, not below \<open>2 ^ 52\<close>: each finite double is written
  in one way. Signed zeros are not told apart.
\<close>

datatype pyfloat = Fin bool nat int | PInf | NInf | NaN

definition py_zero :: pyfloat where
  "py_zero = Fin False 0 (- 1074)"

fun bitlen :: "nat \<Rightarrow> nat" where
  "bitlen n = (if n = 0 then 0 else Suc (bitlen (n div 2)))"

declare bitlen.simps [simp del]

text \<open>\<open>a / b\<close> rounded to the nearest integer, ties to even.\<close>

definition div_half_even :: "nat \<Rightarrow> nat \<Rightarrow> nat" where
  "div_half_even a b =
     (let q = a div b; r = a mod b
      in if 2 * r < b then q
         else if b < 2 * r then q + 1
         else if even q then q else q + 1)"

text \<open>
  The binary exponent of the last place of \<open>n / d\<close>: 52 below the exponent of its
  leading bit, and not below that of the subnormals.
\<close>

definition ulp_exp :: "nat \<Rightarrow> nat \<Rightarrow> int" where
  "ulp_exp n d =
     (let k = int (bitlen n) - int (bitlen d);
          l = (if (if 0 \<le> k then d * 2 ^ nat k \<le> n else d \<le> n * 2 ^ nat (- k)) then k else k - 1)
      in max (l - 52) (- 1074))"

definition mantissa :: "nat \<Rightarrow> nat \<Rightarrow> nat" where
  "mantissa n d =
     (let e = ulp_exp n d
      in if 0 \<le> e then div_half_even n (d * 2 ^ nat e)
         else div_half_even (n * 2 ^ nat (- e)) d)"

text \<open>
  \<open>n / d\<close> rounded to the nearest double, ties to even: a mantissa rounded up to
  \<open>2 ^ 53\<close> is \<open>2 ^ 52\<close> one exponent higher, and a double beyond the largest one,
  \<open>(2 ^ 53 - 1) * 2 ^ 971\<close>, is an infinity.
\<close>

definition float_of_frac :: "bool \<Rightarrow> nat \<Rightarrow> nat \<Rightarrow> pyfloat" where
  "float_of_frac neg n d =
     (let e = ulp_exp n d; m = mantissa n d
      in if n = 0 \<or> m = 0 then py_zero
         else if m = 2 ^ 53 then
           (if 971 < e + 1 then (if neg then NInf else PInf) else Fin neg (2 ^ 52) (e + 1))
         else if 971 < e then (if neg then NInf else PInf)
         else Fin neg m e)"

text \<open>
  \<open>float(s)\<close> on a string: blanks around, a sign, then \<open>inf\<close>, \<open>infinity\<close>, \<open>nan\<close> or a
  decimal numeral with an optional fraction and exponent, single underscores between
  digits. \<open>None\<close> is Python's \<open>ValueError\<close>.
\<close>

definition digit_val :: "char \<Rightarrow> nat" where
  "digit_val c = of_char c - 48"

definition nat_of_digits :: "string \<Rightarrow> nat" where
  "nat_of_digits ds = foldl (\<lambda>a c. 10 * a + digit_val c) 0 ds"

fun scan_digits :: "string \<Rightarrow> string \<times> string" where
  "scan_digits [] = ([], [])"
| "scan_digits (c # cs) =
     (if is_digit c then
        (case cs of
           u # d # ds \<Rightarrow>
             if u = CHR ''_'' \<and> is_digit d
             then (case scan_digits (d # ds) of (a, b) \<Rightarrow> (c # a, b))
             else (case scan_digits cs of (a, b) \<Rightarrow> (c # a, b))
         | _ \<Rightarrow> (case scan_digits cs of (a, b) \<Rightarrow> (c # a, b)))
      else ([], c # cs))"

definition scan_sign :: "string \<Rightarrow> bool \<times> string" where
  "scan_sign s =
     (case s of
        [] \<Rightarrow> (False, [])
      | c # cs \<Rightarrow> if c = CHR ''-'' then (True, cs) else if c = CHR ''+'' then (False, cs) else (False, s))"

definition scan_exponent :: "string \<Rightarrow> int option" where
  "scan_exponent s =
     (case s of
        [] \<Rightarrow> Some 0
      | c # cs \<Rightarrow>
          if c = CHR ''e'' \<or> c = CHR ''E'' then
            (case scan_sign cs of (neg, r) \<Rightarrow>
               (case scan_digits r of (ds, rest) \<Rightarrow>
                  if ds = [] \<or> rest \<noteq> [] then None
                  else Some (if neg then - int (nat_of_digits ds) else int (nat_of_digits ds))))
          else None)"

definition scan_number :: "bool \<Rightarrow> string \<Rightarrow> pyfloat option" where
  "scan_number neg s =
     (case scan_digits s of (ip, r1) \<Rightarrow>
        (case (if startswith r1 ''.'' then scan_digits (tl r1) else ([], r1)) of (fp, r2) \<Rightarrow>
           if ip = [] \<and> fp = [] then None
           else (case scan_exponent r2 of
                   None \<Rightarrow> None
                 | Some ex \<Rightarrow>
                     Some (float_of_frac neg
                             (nat_of_digits (ip @ fp) * 10 ^ nat ex)
                             (10 ^ length fp * 10 ^ nat (- ex))))))"

definition py_float :: "string \<Rightarrow> pyfloat option" where
  "py_float s =
     (case scan_sign (strip s) of (neg, u) \<Rightarrow>
        if lower u = ''inf'' \<or> lower u = ''infinity'' then Some (if neg then NInf else PInf)
        else if lower u = ''nan'' then Some NaN
        else scan_number neg u)"

text \<open>
  \<open>format(x, ',.2f')\<close>: the exact value of the double rounded to two decimals, ties to
  even, the integer part in groups of three. \<open>cents m e\<close> is \<open>m * 2 ^ e * 100\<close> rounded.
\<close>

definition cents :: "nat \<Rightarrow> int \<Rightarrow> nat" where
  "cents m e =
     (if 0 \<le> e then m * 2 ^ nat e * 100 else div_half_even (m * 100) (2 ^ nat (- e)))"

definition digit_char :: "nat \<Rightarrow> char" where
  "digit_char d = char_of (48 + d)"

fun show_nat :: "nat \<Rightarrow> string" where
  "show_nat n = (if n < 10 then [digit_char n] else show_nat (n div 10) @ [digit_char (n mod 10)])"

declare show_nat.simps [simp del]

function group3 :: "string \<Rightarrow> string" where
  "group3 ds =
     (if length ds \<le> 3 then ds
      else group3 (take (length ds - 3) ds) @ '','' @ drop (length ds - 3) ds)"
  by pat_completeness auto
termination
  by (relation "measure length") auto

declare group3.simps [simp del]

definition format_2f :: "pyfloat \<Rightarrow> string" where
  "format_2f x =
     (case x of
        Fin neg m e \<Rightarrow>
          (let c = cents m e
           in (if neg then ''-'' else []) @ group3 (show_nat (c div 100)) @ ''.''
              @ [digit_char (c mod 100 div 10), digit_char (c mod 10)])
      | PInf \<Rightarrow> ''inf''
      | NInf \<Rightarrow> ''-inf''
      | NaN \<Rightarrow> ''nan'')"

section \<open>Journal entries (journal/entry_generator.py)\<close>

type_synonym datetime = "nat \<times> nat \<times> nat"

text \<open>
  The \<open>date\<close> of a transaction is the \<open>datetime\<close> the date parser returned (year, month,
  day), or the string of the statement when it returned none.
\<close>

datatype date_val = Parsed datetime | Raw string

text \<open>
  The transaction dictionary. \<open>amount\<close> is \<open>None\<close> where Python holds \<open>None\<close>;
  \<open>original_match\<close> holds the tuple that the source prints with \<open>str\<close>.
\<close>

record transaction =
  date :: date_val
  date_original :: string
  description :: string
  transaction_code :: string
  amount :: "pyfloat option"
  amount_original :: string
  txn_type :: string
  narration :: string
  category :: string
  bank_type :: string
  original_match :: "string list"

record journal_entry =
  e_date :: date_val
  debit_account :: string
  debit_amount :: string
  credit_account :: string
  credit_amount :: string
  e_narration :: string
  e_type :: string
  transaction_type :: string
  e_category :: string
  debit_entry :: string
  credit_entry :: string
  full_entry :: string

datatype exn = TypeError

definition currency_symbol :: string where
  "currency_symbol = [CHR 0xE2, CHR 0x82, CHR 0xB9]"

text \<open>The default account mapping (no mapping file).\<close>

definition specific_accounts :: "(string \<times> string \<times> string) list" where
  "specific_accounts =
     [(''cash_withdrawal'', ''Cash Account'', ''To Bank Account''),
      (''bank_transfer'', ''Bank Transfer'', ''To Bank Account''),
      (''donation_income'', ''Bank Account'', ''To Donation Income''),
      (''salary_income'', ''Bank Account'', ''To Salary Income''),
      (''food_expense'', ''Food Expense'', ''To Bank Account''),
      (''transport_expense'', ''Transport Expense'', ''To Bank Account'')]"

definition account_types :: "(string \<times> string \<times> string) list" where
  "account_types =
     [(''income'', ''Bank Account'', ''To {account_name}''),
      (''expense'', ''{account_name}'', ''To Bank Account''),
      (''transfer'', ''{account_name}'', ''To Bank Account''),
      (''asset'', ''{account_name}'', ''To Bank Account''),
      (''liability'', ''{account_name}'', ''To Bank Account'')]"

definition get_category_type :: "string \<Rightarrow> string" where
  "get_category_type cat =
     (let category_lower = lower cat
      in if list_ex (contains category_lower) [''income'', ''salary'', ''donation'', ''interest'', ''refund'']
         then ''income''
         else if list_ex (contains category_lower) [''transfer'', ''withdrawal'', ''cash'']
         then ''transfer''
         else ''expense'')"

text \<open>\<open>str.title()\<close>: a letter after a character that is no letter in upper case, the others in lower case.\<close>

fun title_from :: "bool \<Rightarrow> string \<Rightarrow> string" where
  "title_from prev [] = []"
| "title_from prev (c # cs) =
     (if is_upper c \<or> is_lower c
      then (if prev then to_lower c else to_upper c) # title_from True cs
      else c # title_from False cs)"

definition title :: "string \<Rightarrow> string" where
  "title s = title_from False s"

text \<open>\<open>template.format(account_name=name)\<close> for the templates of the mapping.\<close>

definition format_account :: "string \<Rightarrow> string \<Rightarrow> string" where
  "format_account template name = replace ''{account_name}'' name template"

definition get_account_names :: "string \<Rightarrow> string \<Rightarrow> string \<times> string" where
  "get_account_names cat ttype =
     (case map_of specific_accounts cat of
        Some mapping \<Rightarrow> mapping
      | None \<Rightarrow>
          (case map_of account_types (get_category_type cat) of
             Some (d, c) \<Rightarrow>
               if ttype = ''CR'' then (d, format_account c (title cat))
               else (format_account d (title cat), c)
           | None \<Rightarrow>
               if ttype = ''CR'' then (''Bank Account'', format_account ''To {account_name}'' (title cat))
               else (format_account ''{account_name}'' (title cat), ''To Bank Account'')))"

text \<open>\<open>f"{amount:,.2f}"\<close> raises \<open>TypeError\<close> on \<open>None\<close>.\<close>

definition format_amount_e :: "pyfloat option \<Rightarrow> exn + string" where
  "format_amount_e a =
     (case a of
        None \<Rightarrow> Inl TypeError
      | Some x \<Rightarrow> Inr (currency_symbol @ format_2f x))"

text \<open>The narration, in the style \<open>detailed\<close> of the default accounting rules.\<close>

definition generate_narration :: "string \<Rightarrow> pyfloat option \<Rightarrow> string \<Rightarrow> exn + string" where
  "generate_narration desc a ttype =
     (case format_amount_e a of
        Inl e \<Rightarrow> Inl e
      | Inr formatted_amount \<Rightarrow>
          Inr ((if ttype = ''CR'' then ''Received'' else ''Paid'') @ '' for '' @ desc
               @ '' - Amount: '' @ formatted_amount))"

definition generate_journal_entry :: "transaction \<Rightarrow> string \<Rightarrow> exn + journal_entry" where
  "generate_journal_entry t cat =
     (let ttype = upper (txn_type t)
      in case format_amount_e (amount t) of
           Inl e \<Rightarrow> Inl e
         | Inr formatted_amount \<Rightarrow>
             (case get_account_names cat ttype of (debit_acc, credit_acc) \<Rightarrow>
                (case generate_narration (description t) (amount t) ttype of
                   Inl e \<Rightarrow> Inl e
                 | Inr narr \<Rightarrow>
                     Inr \<lparr>e_date = date t,
                          debit_account = debit_acc,
                          debit_amount = formatted_amount,
                          credit_account = credit_acc,
                          credit_amount = formatted_amount,
                          e_narration = narr,
                          e_type = (if ttype = ''CR'' then ''credit'' else ''debit''),
                          transaction_type = ttype,
                          e_category = cat,
                          debit_entry = debit_acc @ '' Dr '' @ formatted_amount,
                          credit_entry = ''To '' @ credit_acc @ '' '' @ formatted_amount,
                          full_entry = debit_acc @ '' Dr '' @ formatted_amount @ [CHR 0x0A]
                            @ ''To '' @ credit_acc @ '' '' @ formatted_amount\<rparr>)))"

text \<open>\<open>JournalEntryGenerator._parse_amount\<close>\<close>

definition entry_parse_amount :: "string \<Rightarrow> pyfloat" where
  "entry_parse_amount amount_str =
     (case py_float (replace '','' [] (replace currency_symbol [] amount_str)) of
        Some x \<Rightarrow> x
      | None \<Rightarrow> py_zero)"

section \<open>The ledger (journal/ledger_manager.py)\<close>

record posting =
  p_date :: date_val
  particulars :: string
  debit :: pyfloat
  credit :: pyfloat
  p_narration :: string
  p_type :: string

text \<open>
  \<open>ledger_accounts\<close> is a dictionary from account names to posting lists; its keys keep
  the order in which they were first stored.
\<close>

type_synonym ledger = "(string \<times> posting list) list"

text \<open>
  \<open>LedgerManager._parse_amount\<close>. The currency sign it removes is the one its source
  file holds: the three characters that the rupee sign's bytes give when read as
  Windows-1252, not the rupee sign of the entry generator.
\<close>

definition ledger_currency_symbol :: string where
  "ledger_currency_symbol = [CHR 0xC3, CHR 0xA2, CHR 0xE2, CHR 0x80, CHR 0x9A, CHR 0xC2, CHR 0xB9]"

definition parse_amount_l :: "string \<Rightarrow> pyfloat" where
  "parse_amount_l amount_str =
     (case py_float (replace '','' [] (replace ledger_currency_symbol [] amount_str)) of
        Some x \<Rightarrow> x
      | None \<Rightarrow> py_zero)"

text \<open>
  \<open>if account not in ledger_accounts: ledger_accounts[account] = []\<close>, then
  \<open>ledger_accounts[account].append(p)\<close>.
\<close>

fun append_posting :: "string \<Rightarrow> posting \<Rightarrow> ledger \<Rightarrow> ledger" where
  "append_posting acc p [] = [(acc, [p])]"
| "append_posting acc p ((k, ps) # l) =
     (if k = acc then (k, ps @ [p]) # l else (k, ps) # append_posting acc p l)"

definition process_journal_entry :: "ledger \<Rightarrow> journal_entry \<Rightarrow> ledger" where
  "process_journal_entry l entry =
     (let amt = parse_amount_l (debit_amount entry);
          l1 = append_posting (debit_account entry)
                 \<lparr>p_date = e_date entry,
                  particulars = ''To '' @ credit_account entry,
                  debit = amt,
                  credit = py_zero,
                  p_narration = e_narration entry,
                  p_type = ''debit''\<rparr> l
      in append_posting (credit_account entry)
           \<lparr>p_date = e_date entry,
            particulars = ''By '' @ debit_account entry,
            debit = py_zero,
            credit = amt,
            p_narration = e_narration entry,
            p_type = ''credit''\<rparr> l1)"

definition update_ledger :: "ledger \<Rightarrow> journal_entry list \<Rightarrow> ledger" where
  "update_ledger l entries = foldl process_journal_entry l entries"

text \<open>All the postings of the ledger, account by account.\<close>

definition all_postings :: "ledger \<Rightarrow> posting list" where
  "all_postings l = concat (map snd l)"

text \<open>\<open>ledger_accounts.get(account, [])\<close>\<close>

definition postings_of :: "ledger \<Rightarrow> string \<Rightarrow> posting list" where
  "postings_of l acc = (case map_of l acc of Some ps \<Rightarrow> ps | None \<Rightarrow> [])"
section \<open>Regular expressions\<close>

text \<open>
  The patterns of the sources, and a backtracking matcher that tries the alternatives
  in the order of Python's \<open>re\<close>: a greedy repetition takes the longest run first, a
  lazy one the shortest, an alternation its left branch first. Every repetition of the
  sources repeats a single character class, so \<open>Rep\<close> does.
\<close>

datatype cls = Digit | Space | AnyChar | Lit char | Rng char char | OneOf "cls list"

datatype regex =
    Atom cls
  | Rep bool nat "nat option" cls
  | Seq regex regex
  | Alt regex regex
  | Grp nat regex
  | Bol
  | Eol
  | Wb
  | Eps

definition newline :: char where
  "newline = CHR 0x0A"

definition in_rng :: "char \<Rightarrow> char \<Rightarrow> char \<Rightarrow> bool" where
  "in_rng a b c = ((of_char a :: nat) \<le> of_char c \<and> (of_char c :: nat) \<le> of_char b)"

text \<open>\<open>cls_match ic k c\<close>: the character \<open>c\<close> is in the class \<open>k\<close>; \<open>ic\<close> is \<open>re.IGNORECASE\<close>.\<close>

fun cls_match :: "bool \<Rightarrow> cls \<Rightarrow> char \<Rightarrow> bool" where
  "cls_match ic Digit c = is_digit c"
| "cls_match ic Space c = is_space c"
| "cls_match ic AnyChar c = (c \<noteq> newline)"
| "cls_match ic (Lit a) c = (if ic then to_lower c = to_lower a else c = a)"
| "cls_match ic (Rng a b) c =
     (in_rng a b c \<or> (ic \<and> (in_rng a b (to_lower c) \<or> in_rng a b (to_upper c))))"
| "cls_match ic (OneOf ks) c = list_ex (\<lambda>k. cls_match ic k c) ks"

text \<open>
  \<open>rep_greedy p lo hi i rest k\<close>: between \<open>lo\<close> and \<open>hi\<close> characters of \<open>rest\<close> that
  satisfy \<open>p\<close>, as many as possible, then the continuation \<open>k\<close> at the position reached;
  on failure one character fewer.
\<close>

fun rep_greedy :: "(char \<Rightarrow> bool) \<Rightarrow> nat \<Rightarrow> nat option \<Rightarrow> nat \<Rightarrow> string
    \<Rightarrow> (nat \<Rightarrow> string \<Rightarrow> 'a option) \<Rightarrow> 'a option" where
  "rep_greedy p lo hi i [] k = (if lo = 0 then k i [] else None)"
| "rep_greedy p lo hi i (c # cs) k =
     (if hi \<noteq> Some 0 \<and> p c then
        (case rep_greedy p (lo - 1) (map_option (\<lambda>h. h - 1) hi) (Suc i) cs k of
           Some r \<Rightarrow> Some r
         | None \<Rightarrow> if lo = 0 then k i (c # cs) else None)
      else if lo = 0 then k i (c # cs) else None)"

fun rep_lazy :: "(char \<Rightarrow> bool) \<Rightarrow> nat \<Rightarrow> nat option \<Rightarrow> nat \<Rightarrow> string
    \<Rightarrow> (nat \<Rightarrow> string \<Rightarrow> 'a option) \<Rightarrow> 'a option" where
  "rep_lazy p lo hi i [] k = (if lo = 0 then k i [] else None)"
| "rep_lazy p lo hi i (c # cs) k =
     (case (if lo = 0 then k i (c # cs) else None) of
        Some r \<Rightarrow> Some r
      | None \<Rightarrow>
          if hi \<noteq> Some 0 \<and> p c
          then rep_lazy p (lo - 1) (map_option (\<lambda>h. h - 1) hi) (Suc i) cs k
          else None)"

type_synonym caps = "nat \<rightharpoonup> nat \<times> nat"

text \<open>
  \<open>rmatch s ic ml r i rest cp k\<close>: match \<open>r\<close> at position \<open>i\<close> of \<open>s\<close>, where \<open>rest\<close> is
  what is left of \<open>s\<close>, with the groups \<open>cp\<close> set so far; \<open>ml\<close> is \<open>re.MULTILINE\<close>.
\<close>

fun rmatch :: "string \<Rightarrow> bool \<Rightarrow> bool \<Rightarrow> regex \<Rightarrow> nat \<Rightarrow> string \<Rightarrow> caps
    \<Rightarrow> (nat \<Rightarrow> string \<Rightarrow> caps \<Rightarrow> 'a option) \<Rightarrow> 'a option" where
  "rmatch s ic ml (Atom c) i rest cp k =
     (case rest of
        [] \<Rightarrow> None
      | x # xs \<Rightarrow> if cls_match ic c x then k (Suc i) xs cp else None)"
| "rmatch s ic ml (Rep greedy lo hi c) i rest cp k =
     (if greedy then rep_greedy (cls_match ic c) lo hi i rest (\<lambda>j r. k j r cp)
      else rep_lazy (cls_match ic c) lo hi i rest (\<lambda>j r. k j r cp))"
| "rmatch s ic ml (Seq a b) i rest cp k =
     rmatch s ic ml a i rest cp (\<lambda>j r cp'. rmatch s ic ml b j r cp' k)"
| "rmatch s ic ml (Alt a b) i rest cp k =
     (case rmatch s ic ml a i rest cp k of
        Some r \<Rightarrow> Some r
      | None \<Rightarrow> rmatch s ic ml b i rest cp k)"
| "rmatch s ic ml (Grp n a) i rest cp k =
     rmatch s ic ml a i rest cp (\<lambda>j r cp'. k j r (cp'(n \<mapsto> (i, j))))"
| "rmatch s ic ml Bol i rest cp k =
     (if i = 0 \<or> (ml \<and> s ! (i - 1) = newline) then k i rest cp else None)"
| "rmatch s ic ml Eol i rest cp k =
     (if rest = [] \<or> (ml \<and> hd rest = newline) \<or> (\<not> ml \<and> rest = [newline])
      then k i rest cp else None)"
| "rmatch s ic ml Wb i rest cp k =
     (if (0 < i \<and> is_word (s ! (i - 1))) \<noteq> (rest \<noteq> [] \<and> is_word (hd rest))
      then k i rest cp else None)"
| "rmatch s ic ml Eps i rest cp k = k i rest cp"

fun seqs :: "regex list \<Rightarrow> regex" where
  "seqs [] = Eps"
| "seqs [r] = r"
| "seqs (r # rs) = Seq r (seqs rs)"

fun alts :: "regex list \<Rightarrow> regex" where
  "alts [] = Eps"
| "alts [r] = r"
| "alts (r # rs) = Alt r (alts rs)"

definition word :: "string \<Rightarrow> regex" where
  "word w = seqs (map (\<lambda>c. Atom (Lit c)) w)"

text \<open>A compiled pattern: its flags \<open>IGNORECASE\<close> and \<open>MULTILINE\<close>, and the expression.\<close>

type_synonym pattern = "bool \<times> bool \<times> regex"

text \<open>\<open>pattern.match(s)\<close>: the end of the match at position 0 and its groups.\<close>

definition re_match :: "pattern \<Rightarrow> string \<Rightarrow> (nat \<times> caps) option" where
  "re_match p s =
     (case p of (ic, ml, r) \<Rightarrow> rmatch s ic ml r 0 s Map.empty (\<lambda>j rest cp. Some (j, cp)))"

text \<open>\<open>pattern.search(s, i)\<close>: the leftmost match at or after \<open>i\<close>, where \<open>rest = s[i:]\<close>.\<close>

fun search_from :: "pattern \<Rightarrow> string \<Rightarrow> nat \<Rightarrow> string \<Rightarrow> (nat \<times> nat \<times> caps) option" where
  "search_from p s i [] =
     (case p of (ic, ml, r) \<Rightarrow> rmatch s ic ml r i [] Map.empty (\<lambda>j rest cp. Some (i, j, cp)))"
| "search_from p s i (c # cs) =
     (case (case p of (ic, ml, r) \<Rightarrow>
              rmatch s ic ml r i (c # cs) Map.empty (\<lambda>j rest cp. Some (i, j, cp))) of
        Some m \<Rightarrow> Some m
      | None \<Rightarrow> search_from p s (Suc i) cs)"

definition re_search :: "pattern \<Rightarrow> string \<Rightarrow> (nat \<times> nat \<times> caps) option" where
  "re_search p s = search_from p s 0 s"

definition slice :: "string \<Rightarrow> nat \<Rightarrow> nat \<Rightarrow> string" where
  "slice s i j = take (j - i) (drop i s)"

text \<open>
  \<open>match.groups()\<close> for a pattern of \<open>n\<close> groups. Each group of each pattern of the
  sources lies on the spine of its pattern, so a match sets them all.
\<close>

definition groups :: "nat \<Rightarrow> string \<Rightarrow> caps \<Rightarrow> string list" where
  "groups n s cp =
     map (\<lambda>g. case cp g of Some (i, j) \<Rightarrow> slice s i j | None \<Rightarrow> []) [1..<Suc n]"

fun ngroups :: "regex \<Rightarrow> nat" where
  "ngroups (Seq a b) = ngroups a + ngroups b"
| "ngroups (Alt a b) = ngroups a + ngroups b"
| "ngroups (Grp n a) = Suc (ngroups a)"
| "ngroups r = 0"

text \<open>
  \<open>len(re.findall(p, s))\<close> from position \<open>i\<close>: the matches from left to right, each search
  starting where the match before it ended (one further after an empty match).
\<close>

function count_matches :: "pattern \<Rightarrow> string \<Rightarrow> nat \<Rightarrow> nat" where
  "count_matches p s i =
     (if length s < i then 0
      else case search_from p s i (drop i s) of
             None \<Rightarrow> 0
           | Some (a, b, cp) \<Rightarrow>
               Suc (count_matches p s (max (Suc i) (if a < b then b else Suc a))))"
  by pat_completeness auto
termination
  by (relation "measure (\<lambda>(p, s, i). Suc (length s) - i)") auto

declare count_matches.simps [simp del]

text \<open>
  \<open>re.sub(p, repl, s)\<close> from position \<open>i\<close>: each match replaced by \<open>repl\<close>, what lies
  between the matches kept.
\<close>

function sub_from :: "pattern \<Rightarrow> string \<Rightarrow> string \<Rightarrow> nat \<Rightarrow> string" where
  "sub_from p repl s i =
     (if length s < i then []
      else case search_from p s i (drop i s) of
             None \<Rightarrow> drop i s
           | Some (a, b, cp) \<Rightarrow>
               slice s i a @ repl
               @ (if a < b then sub_from p repl s (max (Suc i) b)
                  else slice s a (Suc a) @ sub_from p repl s (max (Suc i) (Suc a))))"
  by pat_completeness auto
termination
  by (relation "measure (\<lambda>(p, repl, s, i). Suc (length s) - i)") auto

declare sub_from.simps [simp del]

definition re_sub :: "pattern \<Rightarrow> string \<Rightarrow> string \<Rightarrow> string" where
  "re_sub p repl s = sub_from p repl s 0"

section \<open>Amounts (parser/amount_parser.py)\<close>

definition digits_commas :: cls where
  "digits_commas = OneOf [Digit, Lit CHR '','']"

text \<open>\<open>self.amount_patterns\<close>, searched without flags.\<close>

definition amount_patterns :: "pattern list" where
  "amount_patterns =
     [(False, False, seqs [Rep True 1 None digits_commas, Atom (Lit CHR ''.''), Rep True 2 (Some 2) Digit]),
      (False, False, seqs [Rep True 1 None digits_commas, Atom (Lit CHR ''.''), Rep True 1 (Some 1) Digit]),
      (False, False, Rep True 1 None digits_commas),
      (False, False, seqs [Rep True 1 None Digit, Atom (Lit CHR ''.''), Rep True 2 (Some 2) Digit]),
      (False, False, seqs [Rep True 1 None Digit, Atom (Lit CHR ''.''), Rep True 1 (Some 1) Digit])]"

text \<open>The last resort of \<open>_clean_amount_string\<close>: \<open>[\d,]*\.?\d+\<close>.\<close>

definition digits_decimal :: pattern where
  "digits_decimal =
     (False, False,
      seqs [Rep True 0 None digits_commas, Rep True 0 (Some 1) (Lit CHR ''.''), Rep True 1 None Digit])"

text \<open>\<open>match.group()\<close> of the first pattern of the list that is found in \<open>s\<close>.\<close>

fun first_search :: "pattern list \<Rightarrow> string \<Rightarrow> string option" where
  "first_search [] s = None"
| "first_search (p # ps) s =
     (case re_search p s of
        Some (a, b, cp) \<Rightarrow> Some (slice s a b)
      | None \<Rightarrow> first_search ps s)"

definition clean_amount_string :: "string \<Rightarrow> string option" where
  "clean_amount_string amount_str0 =
     (let amount_str1 = strip amount_str0;
          amount_str = (if startswith amount_str1 ''('' \<and> endswith amount_str1 '')''
                        then ''-'' @ butlast (tl amount_str1) else amount_str1)
      in case first_search amount_patterns amount_str of
           Some m \<Rightarrow> Some m
         | None \<Rightarrow> first_search [digits_decimal] amount_str)"

text \<open>
  \<open>round(x, 2)\<close>: the double nearest to \<open>x\<close> rounded to two decimals; an infinity or a
  NaN is returned as it is.
\<close>

definition round2 :: "pyfloat \<Rightarrow> pyfloat" where
  "round2 x =
     (case x of
        Fin neg m e \<Rightarrow> float_of_frac neg (cents m e) 100
      | _ \<Rightarrow> x)"

definition parse_amount :: "string \<Rightarrow> pyfloat option" where
  "parse_amount amount_str =
     (if amount_str = [] then None
      else case clean_amount_string amount_str of
             None \<Rightarrow> None
           | Some cleaned \<Rightarrow>
               if cleaned = [] then None
               else (case py_float (replace '','' [] cleaned) of
                       None \<Rightarrow> None
                     | Some amt \<Rightarrow> Some (round2 amt)))"

definition py_abs :: "pyfloat \<Rightarrow> pyfloat" where
  "py_abs x = (case x of Fin neg m e \<Rightarrow> Fin False m e | NInf \<Rightarrow> PInf | _ \<Rightarrow> x)"

text \<open>\<open>x < 0\<close>\<close>

definition py_negative :: "pyfloat \<Rightarrow> bool" where
  "py_negative x = (case x of Fin neg m e \<Rightarrow> neg \<and> 0 < m | NInf \<Rightarrow> True | _ \<Rightarrow> False)"

text \<open>\<open>format_amount(amount)\<close>, without the currency sign.\<close>

definition format_amount :: "pyfloat \<Rightarrow> string" where
  "format_amount x =
     (let formatted = format_2f (py_abs x)
      in if py_negative x then ''('' @ formatted @ '')'' else formatted)"

section \<open>Transaction patterns (parser/regex_patterns.py)\<close>

definition ws1 :: regex where
  "ws1 = Rep True 1 None Space"

definition ws0 :: regex where
  "ws0 = Rep True 0 None Space"

text \<open>\<open>\d{1,2}\<close>, and a literal character\<close>

definition d12 :: regex where
  "d12 = Rep True 1 (Some 2) Digit"

definition chr :: "char \<Rightarrow> regex" where
  "chr c = Atom (Lit c)"

text \<open>\<open>[\d,]+\.?\d{0,2}\<close>\<close>

definition amount_re :: regex where
  "amount_re =
     seqs [Rep True 1 None digits_commas, Rep True 0 (Some 1) (Lit CHR ''.''), Rep True 0 (Some 2) Digit]"

text \<open>\<open>\d{1,2}/\d{1,2}/\d{lo,4}\<close> with the separator class \<open>sep\<close>\<close>

definition date_re :: "cls \<Rightarrow> nat \<Rightarrow> regex" where
  "date_re sep lo = seqs [d12, Atom sep, d12, Atom sep, Rep True lo (Some 4) Digit]"

definition slash_dash :: cls where
  "slash_dash = OneOf [Lit CHR ''/'', Lit CHR ''-'']"

definition cr_dr :: regex where
  "cr_dr = Alt (word ''CR'') (word ''DR'')"

definition cr_dr_mixed :: regex where
  "cr_dr_mixed = alts [word ''CR'', word ''DR'', word ''Cr'', word ''Dr'']"

text \<open>\<open>(.*?)\<close> and \<open>(.*)\<close> as group \<open>n\<close>\<close>

definition lazy_any :: "nat \<Rightarrow> regex" where
  "lazy_any n = Grp n (Rep False 0 None AnyChar)"

definition greedy_any :: "nat \<Rightarrow> regex" where
  "greedy_any n = Grp n (Rep True 0 None AnyChar)"

text \<open>
  The default patterns of each bank, in the order of the source, each compiled with
  \<open>re.IGNORECASE | re.MULTILINE\<close>.
\<close>

definition hdfc_patterns :: "regex list" where
  "hdfc_patterns =
     [seqs [Bol, Grp 1 (date_re (Lit CHR ''/'') 2), ws1, lazy_any 2, ws1, Grp 3 amount_re, ws1,
           Grp 4 cr_dr, ws0, greedy_any 5, Eol],
      seqs [Bol, Grp 1 (date_re (Lit CHR ''/'') 4), ws1,
           Grp 2 (Rep True 1 None (OneOf [Rng CHR ''A'' CHR ''Z'', Rng CHR ''0'' CHR ''9'',
                                        Lit CHR ''/'', Lit CHR ''-''])),
           ws1, lazy_any 3, ws1, Grp 4 amount_re, ws1, Grp 5 cr_dr, ws0, greedy_any 6, Eol]]"

definition sbi_patterns :: "regex list" where
  "sbi_patterns =
     [seqs [Bol, Grp 1 (date_re (Lit CHR ''-'') 2), ws1, lazy_any 2, ws1, Grp 3 amount_re, ws1,
           Grp 4 cr_dr, ws0, greedy_any 5, Eol],
      seqs [Bol, Grp 1 (date_re (Lit CHR ''-'') 4), ws1, lazy_any 2, ws1,
           Grp 3 (seqs [word ''CHQ'', ws1, Rep True 1 None Digit]),
           ws1, Grp 4 amount_re, ws1, Grp 5 cr_dr, ws0, greedy_any 6, Eol]]"

definition icici_patterns :: "regex list" where
  "icici_patterns =
     [seqs [Bol, Grp 1 (date_re (Lit CHR ''/'') 4), ws1, lazy_any 2, ws1, Grp 3 amount_re, ws1,
           Grp 4 (Alt (word ''Cr'') (word ''Dr'')), ws1, Grp 5 amount_re, Eol],
      seqs [Bol, Grp 1 (date_re (Lit CHR ''/'') 4), ws1,
           Grp 2 (seqs [word ''UPI/'', Rep False 0 None AnyChar]),
           ws1, Grp 3 amount_re, ws1, Grp 4 (Alt (word ''Cr'') (word ''Dr'')), Eol]]"

definition axis_patterns :: "regex list" where
  "axis_patterns =
     [seqs [Bol, Grp 1 (date_re (Lit CHR ''/'') 4), ws1, lazy_any 2, ws1, Grp 3 amount_re, ws1,
           Grp 4 cr_dr, Eol],
      seqs [Bol, Grp 1 (date_re (Lit CHR ''/'') 4), ws1,
           Grp 2 (alts [word ''NEFT'', word ''IMPS'', word ''RTGS'']),
           Rep False 0 None AnyChar, ws1, Grp 3 amount_re, ws1, Grp 4 cr_dr, Eol]]"

definition generic_patterns :: "regex list" where
  "generic_patterns =
     [seqs [Bol, Grp 1 (date_re slash_dash 2), ws1, lazy_any 2, ws1, Grp 3 amount_re, ws1,
           Grp 4 cr_dr_mixed, ws0, greedy_any 5, Eol],
      seqs [Bol, Grp 1 (date_re slash_dash 2), ws1, lazy_any 2, ws1, Grp 3 cr_dr_mixed, ws1,
           Grp 4 amount_re, ws0, greedy_any 5, Eol],
      seqs [Bol, Grp 1 (date_re slash_dash 4), ws1,
           Grp 2 (Rep True 1 None (OneOf [Rng CHR ''A'' CHR ''Z'', Rng CHR ''0'' CHR ''9''])),
           ws1, lazy_any 3, ws1, Grp 4 amount_re, ws1, Grp 5 cr_dr, ws0, greedy_any 6, Eol],
      seqs [Bol, Grp 1 (date_re slash_dash 4), ws0, Eol, ws0, Bol, lazy_any 2, ws1,
           Grp 3 amount_re, ws1, Grp 4 cr_dr, ws0, greedy_any 5, Eol]]"

text \<open>\<open>self.compiled_patterns.get(bank_type, [])\<close>\<close>

definition compiled_patterns :: "string \<Rightarrow> pattern list" where
  "compiled_patterns bank =
     map (\<lambda>r. (True, True, r))
       (if bank = ''hdfc'' then hdfc_patterns
        else if bank = ''sbi'' then sbi_patterns
        else if bank = ''icici'' then icici_patterns
        else if bank = ''axis'' then axis_patterns
        else if bank = ''generic'' then generic_patterns
        else [])"

text \<open>The groups of the first pattern of the list that matches the line at its start.\<close>

fun first_match :: "pattern list \<Rightarrow> string \<Rightarrow> string list option" where
  "first_match [] line = None"
| "first_match (p # ps) line =
     (case re_match p line of
        Some (j, cp) \<Rightarrow> Some (groups (ngroups (snd (snd p))) line cp)
      | None \<Rightarrow> first_match ps line)"

definition match_transaction :: "string \<Rightarrow> string \<Rightarrow> string list option" where
  "match_transaction line0 bank =
     (let line = strip line0
      in if line = [] \<or> length line < 10 then None
         else first_match (compiled_patterns bank @ compiled_patterns ''generic'') line)"

text \<open>The matches of the lines of a text, in the order of the lines.\<close>

fun matches_of_lines :: "string list \<Rightarrow> string \<Rightarrow> string list list" where
  "matches_of_lines [] bank = []"
| "matches_of_lines (line # lines) bank =
     (case match_transaction line bank of
        Some m \<Rightarrow> m # matches_of_lines lines bank
      | None \<Rightarrow> matches_of_lines lines bank)"

definition find_all_transactions :: "string \<Rightarrow> string \<Rightarrow> string list list" where
  "find_all_transactions text bank = matches_of_lines (split newline text) bank"

section \<open>Bank detection (parser/bank_format_detector.py, parser/bank_formats.py)\<close>

text \<open>\<open>bank_indicators\<close> of bank_format_detector.py: the bank and its keywords.\<close>

definition bank_indicators :: "(string \<times> string list) list" where
  "bank_indicators =
     [(''hdfc'', [''HDFC'', ''HDFC BANK'', ''HDFC Bank'']),
      (''sbi'', [''SBI'', ''STATE BANK'', ''State Bank of India'']),
      (''icici'', [''ICICI'', ''ICICI BANK'', ''ICICI Bank'']),
      (''axis'', [''AXIS'', ''AXIS BANK'', ''Axis Bank''])]"

text \<open>The first bank of the list with a keyword in the text, in upper case both.\<close>

fun keyword_scan :: "(string \<times> string list) list \<Rightarrow> string \<Rightarrow> string option" where
  "keyword_scan [] text_upper = None"
| "keyword_scan ((bank, keywords) # rest) text_upper =
     (if list_ex (\<lambda>keyword. contains text_upper (upper keyword)) keywords then Some bank
      else keyword_scan rest text_upper)"

text \<open>\<open>BankFormatDetector.detect_bank_format\<close> of bank_format_detector.py, which the parser imports.\<close>

definition detect_bank_format :: "string \<Rightarrow> string" where
  "detect_bank_format text =
     (case keyword_scan bank_indicators (upper text) of
        Some bank \<Rightarrow> bank
      | None \<Rightarrow> ''generic'')"

text \<open>The detector of bank_formats.py: one bank more, and two stages after the keywords.\<close>

definition bank_indicators_bf :: "(string \<times> string list) list" where
  "bank_indicators_bf = bank_indicators @ [(''pnb'', [''PNB'', ''PUNJAB NATIONAL BANK''])]"

text \<open>\<open>\d{2}/\d{2}/\d{4}\<close> with the separator \<open>sep\<close>, searched without flags.\<close>

definition date_format :: "char \<Rightarrow> pattern" where
  "date_format sep =
     (False, False,
      seqs [Rep True 2 (Some 2) Digit, chr sep, Rep True 2 (Some 2) Digit, chr sep,
           Rep True 4 (Some 4) Digit])"

definition date_patterns_bf :: "(string \<times> pattern) list" where
  "date_patterns_bf =
     [(''sbi'', date_format CHR ''-''),
      (''hdfc'', date_format CHR ''/''),
      (''icici'', date_format CHR ''/''),
      (''axis'', date_format CHR ''/'')]"

text \<open>\<open>max(pattern_counts, key=pattern_counts.get)\<close>: the first key with the largest count.\<close>

fun max_by_count :: "(string \<times> nat) list \<Rightarrow> (string \<times> nat) option" where
  "max_by_count [] = None"
| "max_by_count ((b, n) # rest) =
     (case max_by_count rest of
        None \<Rightarrow> Some (b, n)
      | Some (b', n') \<Rightarrow> if n' \<le> n then Some (b, n) else Some (b', n'))"

definition detect_by_date_format :: "string \<Rightarrow> string option" where
  "detect_by_date_format text =
     (case max_by_count (map (\<lambda>(bank, p). (bank, count_matches p text 0)) date_patterns_bf) of
        None \<Rightarrow> None
      | Some (max_bank, n) \<Rightarrow> if 0 < n then Some max_bank else None)"

text \<open>
  \<open>_detect_by_amount_format\<close> returns \<open>"generic"\<close> or \<open>None\<close>, and the detector returns
  \<open>"generic"\<close> after it in both cases.
\<close>

definition detect_bank_format_bf :: "string \<Rightarrow> string" where
  "detect_bank_format_bf text =
     (case keyword_scan bank_indicators_bf (upper text) of
        Some bank \<Rightarrow> bank
      | None \<Rightarrow>
          (case detect_by_date_format text of
             Some bank \<Rightarrow> bank
           | None \<Rightarrow> ''generic''))"

section \<open>Dates (parser/date_parser.py)\<close>

text \<open>The expressions that \<open>strptime\<close> compiles \<open>%d\<close>, \<open>%m\<close>, \<open>%Y\<close> and \<open>%y\<close> to.\<close>

definition strp_d :: regex where
  "strp_d =
     alts [seqs [chr CHR ''3'', Atom (Rng CHR ''0'' CHR ''1'')],
           seqs [Atom (Rng CHR ''1'' CHR ''2''), Atom Digit],
           seqs [chr CHR ''0'', Atom (Rng CHR ''1'' CHR ''9'')],
           Atom (Rng CHR ''1'' CHR ''9''),
           seqs [chr CHR '' '', Atom (Rng CHR ''1'' CHR ''9'')]]"

definition strp_m :: regex where
  "strp_m =
     alts [seqs [chr CHR ''1'', Atom (Rng CHR ''0'' CHR ''2'')],
           seqs [chr CHR ''0'', Atom (Rng CHR ''1'' CHR ''9'')],
           Atom (Rng CHR ''1'' CHR ''9'')]"

text \<open>
  A format of the parser: day first or year first, the separator, and the digits of the
  year (4 for \<open>%Y\<close>, 2 for \<open>%y\<close>). Group 1 is the day, group 2 the month, group 3 the year.
\<close>

datatype date_format = DMY char nat | YMD char

definition strp_regex :: "date_format \<Rightarrow> pattern" where
  "strp_regex fmt =
     (case fmt of
        DMY sep yd \<Rightarrow>
          (True, False, seqs [Grp 1 strp_d, chr sep, Grp 2 strp_m, chr sep,
                             Grp 3 (Rep True yd (Some yd) Digit)])
      | YMD sep \<Rightarrow>
          (True, False, seqs [Grp 3 (Rep True 4 (Some 4) Digit), chr sep, Grp 2 strp_m, chr sep,
                             Grp 1 strp_d]))"

definition is_leap :: "nat \<Rightarrow> bool" where
  "is_leap y = (y mod 4 = 0 \<and> (y mod 100 \<noteq> 0 \<or> y mod 400 = 0))"

definition days_in_month :: "nat \<Rightarrow> nat \<Rightarrow> nat" where
  "days_in_month y m =
     (if m = 2 then (if is_leap y then 29 else 28)
      else if m \<in> {4, 6, 9, 11} then 30 else 31)"

text \<open>\<open>datetime(year, month, day)\<close>; \<open>None\<close> is its \<open>ValueError\<close>.\<close>

definition mk_datetime :: "int \<Rightarrow> int \<Rightarrow> int \<Rightarrow> datetime option" where
  "mk_datetime y m d =
     (if 1 \<le> y \<and> y \<le> 9999 \<and> 1 \<le> m \<and> m \<le> 12 \<and> 1 \<le> d
         \<and> d \<le> int (days_in_month (nat y) (nat m))
      then Some (nat y, nat m, nat d) else None)"

text \<open>
  \<open>datetime.strptime(s, fmt)\<close>; \<open>None\<close> is its \<open>ValueError\<close>: the string does not match,
  data remains after the match, or the day is not one of the month.
\<close>

definition strptime :: "string \<Rightarrow> date_format \<Rightarrow> datetime option" where
  "strptime s fmt =
     (case re_match (strp_regex fmt) s of
        None \<Rightarrow> None
      | Some (j, cp) \<Rightarrow>
          if j \<noteq> length s then None
          else (case groups 3 s cp of
                  [d, m, y] \<Rightarrow>
                    (let year = nat_of_digits y;
                         year' = (case fmt of
                                    DMY sep yd \<Rightarrow>
                                      if yd = 2 then (if year \<le> 68 then year + 2000 else year + 1900)
                                      else year
                                  | YMD sep \<Rightarrow> year)
                     in mk_datetime (int year') (int (nat_of_digits m))
                          (int (nat_of_digits (strip d))))
                | _ \<Rightarrow> None))"

text \<open>\<open>self.date_patterns\<close>: the expression that is matched at the start, and the format.\<close>

definition date_shape :: "date_format \<Rightarrow> pattern" where
  "date_shape fmt =
     (case fmt of
        DMY sep yd \<Rightarrow> (False, False, seqs [d12, chr sep, d12, chr sep, Rep True yd (Some yd) Digit])
      | YMD sep \<Rightarrow> (False, False, seqs [Rep True 4 (Some 4) Digit, chr sep, d12, chr sep, d12]))"

definition date_patterns :: "date_format list" where
  "date_patterns =
     [DMY CHR ''/'' 4, DMY CHR ''-'' 4, DMY CHR ''.'' 4, YMD CHR ''/'', YMD CHR ''-'',
      DMY CHR ''/'' 2, DMY CHR ''-'' 2]"

fun try_patterns :: "date_format list \<Rightarrow> string \<Rightarrow> datetime option" where
  "try_patterns [] s = None"
| "try_patterns (fmt # fmts) s =
     (if re_match (date_shape fmt) s \<noteq> None then
        (case strptime s fmt of
           Some dt \<Rightarrow> Some dt
         | None \<Rightarrow> try_patterns fmts s)
      else try_patterns fmts s)"

text \<open>\<open>int(p)\<close> on a string of digits, dashes, dots and slashes; \<open>None\<close> is its \<open>ValueError\<close>.\<close>

definition int_of_part :: "string \<Rightarrow> int option" where
  "int_of_part p =
     (let neg = startswith p ''-''; ds = (if neg then tl p else p)
      in if ds = [] \<or> \<not> list_all is_digit ds then None
         else Some (if neg then - int (nat_of_digits ds) else int (nat_of_digits ds)))"

fun manual_try :: "string \<Rightarrow> string \<Rightarrow> datetime option" where
  "manual_try [] clean_date = None"
| "manual_try (sep # seps) clean_date =
     (case split sep clean_date of
        [p1, p2, p3] \<Rightarrow>
          (case (int_of_part p1, int_of_part p2, int_of_part p3) of
             (Some day, Some month, Some year0) \<Rightarrow>
               (let year = (if year0 < 100 then (if year0 < 50 then year0 + 2000 else year0 + 1900)
                            else year0)
                in if 1 \<le> day \<and> day \<le> 31 \<and> 1 \<le> month \<and> month \<le> 12 then
                     (case mk_datetime year month day of
                        Some dt \<Rightarrow> Some dt
                      | None \<Rightarrow> manual_try seps clean_date)
                   else manual_try seps clean_date)
           | _ \<Rightarrow> manual_try seps clean_date)
      | _ \<Rightarrow> manual_try seps clean_date)"

definition manual_date_parse :: "string \<Rightarrow> datetime option" where
  "manual_date_parse date_str =
     manual_try ''/-.''
       (filter (\<lambda>c. is_digit c \<or> c = CHR ''/'' \<or> c = CHR ''-'' \<or> c = CHR ''.'') date_str)"

text \<open>
  What the parser takes from outside the repository: \<open>dateutil.parser.parse(s,
  dayfirst=True)\<close>, \<open>None\<close> where it raises, and \<open>pandas.to_datetime(column,
  errors='coerce', dayfirst=True)\<close>, \<open>None\<close> where it gives \<open>NaT\<close>.
\<close>

record extern =
  dateutil_parse :: "string \<Rightarrow> datetime option"
  to_datetime :: "date_val list \<Rightarrow> datetime option list"

definition parse_date :: "extern \<Rightarrow> string \<Rightarrow> datetime option" where
  "parse_date ext date_str0 =
     (if date_str0 = [] then None
      else let date_str = strip date_str0
           in case try_patterns date_patterns date_str of
                Some dt \<Rightarrow> Some dt
              | None \<Rightarrow>
                  (case dateutil_parse ext date_str of
                     Some dt \<Rightarrow> Some dt
                   | None \<Rightarrow> manual_date_parse date_str))"

text \<open>
  An instance for the evaluations: a dateutil that raises on every string it is given,
  and a \<open>to_datetime\<close> that keeps each datetime and gives \<open>NaT\<close> for each string.
\<close>

definition ext_strict :: extern where
  "ext_strict =
     \<lparr>dateutil_parse = (\<lambda>s. None),
      to_datetime = map (\<lambda>d. case d of Parsed t \<Rightarrow> Some t | Raw s \<Rightarrow> None)\<rparr>"

section \<open>The transaction parser (parser/transaction_parser.py)\<close>

definition dash_star :: cls where
  "dash_star = OneOf [Lit CHR ''-'', Lit CHR ''*'']"

definition clean_description :: "string \<Rightarrow> string \<Rightarrow> string" where
  "clean_description description0 code =
     (if description0 = [] then []
      else let d1 = re_sub (False, False, ws1) '' '' (strip description0);
               d2 = (if code \<noteq> [] \<and> contains d1 code then strip (replace code [] d1) else d1);
               d3 = re_sub (False, False, seqs [Bol, ws0, Atom dash_star, ws0]) [] d2
           in re_sub (False, False, seqs [ws0, Atom dash_star, ws0, Eol]) [] d3)"

definition expense_keywords :: "(string \<times> string list) list" where
  "expense_keywords =
     [(''food'', [''restaurant'', ''cafe'', ''food'', ''snacks'', ''meal'', ''lunch'', ''dinner'']),
      (''transport'', [''fuel'', ''petrol'', ''bus'', ''train'', ''taxi'', ''uber'', ''ola'']),
      (''shopping'', [''market'', ''store'', ''shop'', ''purchase'', ''buy'']),
      (''utility'', [''electricity'', ''water'', ''internet'', ''mobile'', ''bill''])]"

definition categorize_transaction_p :: "string \<Rightarrow> string \<Rightarrow> string" where
  "categorize_transaction_p desc ttype =
     (let description_lower = lower desc
      in if list_ex (contains description_lower) [''salary'', ''interest'', ''refund'', ''donation'', ''grant'']
         then ''income''
         else if list_ex (contains description_lower) [''neft'', ''imps'', ''rtgs'', ''upi'', ''transfer'']
         then ''transfer''
         else if list_ex (contains description_lower) [''atm'', ''cash'', ''withdrawal'', ''wdl'']
         then ''cash_withdrawal''
         else (case find (\<lambda>(name, keywords). list_ex (contains description_lower) keywords)
                      expense_keywords of
                 Some (name, keywords) \<Rightarrow> name
               | None \<Rightarrow> if ttype = ''CR'' then ''income'' else ''expense''))"

text \<open>
  The fields of a match by its length; \<open>None\<close> where the source returns \<open>None\<close>. The
  amount is stored as \<open>parse_amount\<close> returned it, \<open>None\<close> included. No statement of the
  source's \<open>try\<close> block raises on strings (the errors of \<open>float\<close>, \<open>strptime\<close> and
  dateutil are caught where they arise), so its handler is not reached.
\<close>

definition parse_transaction_match :: "extern \<Rightarrow> string list \<Rightarrow> string \<Rightarrow> transaction option" where
  "parse_transaction_match ext match bank =
     (case (case match of
              [a, b, c, d] \<Rightarrow> Some (a, [], b, c, d, [])
            | [a, b, c, d, e] \<Rightarrow> Some (a, [], b, c, d, e)
            | [a, b, c, d, e, f] \<Rightarrow> Some (a, b, c, d, e, f)
            | _ \<Rightarrow> None) of
        None \<Rightarrow> None
      | Some (date_str, code, desc0, amount_str, type_str0, narration0) \<Rightarrow>
          (let date_obj = parse_date ext date_str;
               amt = parse_amount amount_str;
               desc = clean_description desc0 code;
               type_str = upper type_str0
           in Some \<lparr>date = (case date_obj of Some dt \<Rightarrow> Parsed dt | None \<Rightarrow> Raw date_str),
                    date_original = date_str,
                    description = desc,
                    transaction_code = code,
                    amount = amt,
                    amount_original = amount_str,
                    txn_type = type_str,
                    narration = strip narration0,
                    category = categorize_transaction_p desc type_str,
                    bank_type = bank,
                    original_match = match\<rparr>))"

text \<open>
  \<open>_sort_transactions\<close>. \<open>sorted_rows\<close> is the frame after \<open>sort_values('date_temp')\<close>,
  each row with its \<open>date_temp\<close>: the rows that \<open>to_datetime\<close> gave a datetime in
  ascending order of it, then the rows it gave \<open>NaT\<close>, in the order they had
  (\<open>na_position='last'\<close>). The order that pandas gives to rows of equal date is taken
  here to be the order they had. With \<open>errors='coerce'\<close> the conversion does not
  raise, so the source's \<open>except\<close> branch is not reached.
\<close>

definition sorted_rows :: "extern \<Rightarrow> transaction list \<Rightarrow> (datetime option \<times> transaction) list" where
  "sorted_rows ext txs =
     (let rows = zip (to_datetime ext (map date txs)) txs
      in map (\<lambda>(d, t). (Some d, t))
           (sort_key fst (List.map_filter (\<lambda>(k, t). map_option (\<lambda>d. (d, t)) k) rows))
         @ filter (\<lambda>(k, t). k = None) rows)"

definition sort_transactions :: "extern \<Rightarrow> transaction list \<Rightarrow> transaction list" where
  "sort_transactions ext txs = map snd (sorted_rows ext txs)"

record stats =
  total_lines_processed :: nat
  transactions_found :: nat
  bank_type_detected :: "string option"
  parsing_errors :: nat

text \<open>
  \<open>parse_transactions\<close>: the sorted transactions and the statistics. \<open>parsing_errors\<close> is
  set to 0 by \<open>_reset_stats\<close> and incremented by the two exception handlers only.
\<close>

definition parse_transactions :: "extern \<Rightarrow> string \<Rightarrow> string \<Rightarrow> transaction list \<times> stats" where
  "parse_transactions ext text bank0 =
     (let bank = (if bank0 = ''auto'' then detect_bank_format text else bank0);
          transaction_matches = find_all_transactions text bank;
          transactions = List.map_filter (\<lambda>m. parse_transaction_match ext m bank) transaction_matches
      in (if transactions = [] then [] else sort_transactions ext transactions,
          \<lparr>total_lines_processed = length (split newline text),
           transactions_found = length transaction_matches,
           bank_type_detected = (if bank0 = ''auto'' then Some bank else None),
           parsing_errors = 0\<rparr>))"

text \<open>
  The order the specification words for the rows: by the parsed date, a row whose date
  did not parse by its raw string. \<open>str_date\<close> is Python's \<open>str\<close> of the date value,
  and \<open>spec_sort_by_string\<close> sorts by it. This definition follows the specification, not
  the source; it is what \<open>sort_transactions\<close> is compared with.
\<close>

definition pad_nat :: "nat \<Rightarrow> nat \<Rightarrow> string" where
  "pad_nat w n = replicate (w - length (show_nat n)) CHR ''0'' @ show_nat n"

definition str_date :: "date_val \<Rightarrow> string" where
  "str_date d =
     (case d of
        Parsed (y, m, dd) \<Rightarrow> pad_nat 4 y @ ''-'' @ pad_nat 2 m @ ''-'' @ pad_nat 2 dd @ '' 00:00:00''
      | Raw s \<Rightarrow> s)"

definition spec_sort_by_string :: "transaction list \<Rightarrow> transaction list" where
  "spec_sort_by_string txs = sort_key (\<lambda>t. str_date (date t)) txs"

section \<open>Categories (categorizer/rule_engine.py)\<close>

record category_data =
  cat_keywords :: "string list"
  account_name :: string
  ctype :: string
  priority :: int
  patterns :: "string list"

text \<open>
  \<open>self.categories\<close>: a dictionary, iterated in the order of its declaration, so a list
  of the category names with their data.
\<close>

type_synonym categories = "(string \<times> category_data) list"

text \<open>\<open>_get_default_categories\<close>\<close>

definition default_categories :: categories where
  "default_categories =
     [(''donation_income'',
       \<lparr>cat_keywords = [''donation'', ''donated'', ''contribution'', ''charity'', ''grant'', ''gift''],
        account_name = ''Donation Income'', ctype = ''income'', priority = 1,
        patterns = [''donation'', ''contribution'', ''charity'']\<rparr>),
      (''salary_income'',
       \<lparr>cat_keywords = [''salary'', ''payroll'', ''wages'', ''stipend'', ''compensation''],
        account_name = ''Salary Income'', ctype = ''income'', priority = 1, patterns = []\<rparr>),
      (''food_expense'',
       \<lparr>cat_keywords = [''restaurant'', ''cafe'', ''food'', ''snacks'', ''samosa'', ''meal'', ''lunch'', ''dinner''],
        account_name = ''Food Expense'', ctype = ''expense'', priority = 2, patterns = []\<rparr>),
      (''transport_expense'',
       \<lparr>cat_keywords = [''fuel'', ''petrol'', ''diesel'', ''bus'', ''train'', ''metro'', ''taxi'', ''uber'', ''ola''],
        account_name = ''Transport Expense'', ctype = ''expense'', priority = 2, patterns = []\<rparr>),
      (''cash_withdrawal'',
       \<lparr>cat_keywords = [''atm'', ''cash'', ''withdrawal'', ''wdl'', ''cash withdraw''],
        account_name = ''Cash Account'', ctype = ''transfer'', priority = 1, patterns = []\<rparr>),
      (''bank_transfer'',
       \<lparr>cat_keywords = [''neft'', ''imps'', ''rtgs'', ''upi'', ''transfer''],
        account_name = ''Bank Transfer'', ctype = ''transfer'', priority = 1, patterns = []\<rparr>),
      (''miscellaneous'',
       \<lparr>cat_keywords = [], account_name = ''Miscellaneous'', ctype = ''expense'', priority = 99,
        patterns = []\<rparr>)]"

text \<open>\<open>re.search(r'\b' + re.escape(keyword) + r'\b', description)\<close> finds a match.\<close>

definition keyword_found :: "string \<Rightarrow> string \<Rightarrow> bool" where
  "keyword_found desc keyword =
     (re_search (False, False, seqs [Wb, word keyword, Wb]) desc \<noteq> None)"

text \<open>
  \<open>matched_categories\<close> after the loop: the categories with a keyword in the
  description, each with its priority, in the order of the dictionary.
\<close>

definition matched_categories :: "categories \<Rightarrow> string \<Rightarrow> (string \<times> int) list" where
  "matched_categories cats desc =
     map (\<lambda>(name, data). (name, priority data))
       (filter (\<lambda>(name, data). list_ex (keyword_found desc) (cat_keywords data)) cats)"

text \<open>\<open>list.sort\<close> is stable, as \<open>sort_key\<close> is.\<close>

definition exact_keyword_match :: "categories \<Rightarrow> string \<Rightarrow> string option" where
  "exact_keyword_match cats desc =
     (case sort_key snd (matched_categories cats desc) of
        [] \<Rightarrow> None
      | m # ms \<Rightarrow> Some (fst m))"

section \<open>The ledger posts each entry twice, with one amount\<close>

lemma postings_of_append:
  "postings_of (append_posting acc p l) a =
     (if a = acc then postings_of l a @ [p] else postings_of l a)"
  unfolding postings_of_def by (induction l) auto

lemma mset_all_postings_append:
  "mset (all_postings (append_posting acc p l)) = mset (all_postings l) + {#p#}"
  unfolding all_postings_def by (induction l) auto

text \<open>
  C9. Posting a journal entry appends one debit posting to the debit account and one
  credit posting to the credit account and nothing else: the postings of any account
  \<open>a\<close> grow by exactly these, and the ledger as a whole by exactly the two. Both carry
  the amount parsed from \<open>debit_amount\<close>, the debit posting on its debit side and the
  credit posting on its credit side, the other side being zero; and the result does not
  depend on \<open>credit_amount\<close>, whatever it is set to.
\<close>

theorem process_journal_entry_two_postings:
  "postings_of (process_journal_entry l e) a =
     postings_of l a
     @ (if a = debit_account e
        then [\<lparr>p_date = e_date e, particulars = ''To '' @ credit_account e,
               debit = parse_amount_l (debit_amount e), credit = py_zero,
               p_narration = e_narration e, p_type = ''debit''\<rparr>] else [])
     @ (if a = credit_account e
        then [\<lparr>p_date = e_date e, particulars = ''By '' @ debit_account e,
               debit = py_zero, credit = parse_amount_l (debit_amount e),
               p_narration = e_narration e, p_type = ''credit''\<rparr>] else [])
   \<and> mset (all_postings (process_journal_entry l e)) =
       mset (all_postings l)
       + {#\<lparr>p_date = e_date e, particulars = ''To '' @ credit_account e,
             debit = parse_amount_l (debit_amount e), credit = py_zero,
             p_narration = e_narration e, p_type = ''debit''\<rparr>,
           \<lparr>p_date = e_date e, particulars = ''By '' @ debit_account e,
             debit = py_zero, credit = parse_amount_l (debit_amount e),
             p_narration = e_narration e, p_type = ''credit''\<rparr>#}
   \<and> process_journal_entry l (e\<lparr>credit_amount := x\<rparr>) = process_journal_entry l e"
  by (simp add: process_journal_entry_def Let_def postings_of_append mset_all_postings_append)

section \<open>A generated entry has equal sides\<close>

text \<open>
  C1. For every transaction and category, \<open>generate_journal_entry\<close> either raises
  (only when the amount is \<open>None\<close>, which \<open>format\<close> rejects) or returns an entry whose
  \<open>debit_amount\<close> and \<open>credit_amount\<close> are the same string, the formatted amount of the
  transaction, so that they read as the same number; this holds for \<open>CR\<close>, where the
  entry is of type credit, and for every other type, where it is of type debit.
\<close>

theorem generate_journal_entry_balanced:
  "case amount t of
     None \<Rightarrow> generate_journal_entry t c = Inl TypeError
   | Some x \<Rightarrow>
       (\<exists>e. generate_journal_entry t c = Inr e
          \<and> debit_amount e = credit_amount e
          \<and> debit_amount e = currency_symbol @ format_2f x
          \<and> entry_parse_amount (debit_amount e) = entry_parse_amount (credit_amount e)
          \<and> e_type e = (if upper (txn_type t) = ''CR'' then ''credit'' else ''debit''))"
  by (simp add: generate_journal_entry_def generate_narration_def format_amount_e_def Let_def
      split: option.split prod.split)

theorem generate_journal_entry_balanced_witness:
  "(\<exists>e. generate_journal_entry
          \<lparr>date = Parsed (2024, 3, 15), date_original = ''15/03/2024'',
           description = ''NEFT from John Doe'', transaction_code = [],
           amount = Some (float_of_frac False 5000 1), amount_original = ''5000.00'', txn_type = ''CR'',
           narration = [], category = ''transfer'', bank_type = ''generic'',
           original_match = []\<rparr> ''donation_income'' = Inr e
        \<and> debit_amount e = credit_amount e \<and> e_type e = ''credit'')
   \<and> (\<exists>e. generate_journal_entry
          \<lparr>date = Parsed (2024, 3, 16), date_original = ''16/03/2024'',
           description = ''ATM Cash Withdrawal'', transaction_code = [],
           amount = Some (float_of_frac False 2000 1), amount_original = ''2000.00'', txn_type = ''DR'',
           narration = [], category = ''cash_withdrawal'', bank_type = ''generic'',
           original_match = []\<rparr> ''cash_withdrawal'' = Inr e
        \<and> debit_amount e = credit_amount e \<and> e_type e = ''debit'')"
  using generate_journal_entry_balanced
          [of "\<lparr>date = Parsed (2024, 3, 15), date_original = ''15/03/2024'',
           description = ''NEFT from John Doe'', transaction_code = [],
           amount = Some (float_of_frac False 5000 1), amount_original = ''5000.00'', txn_type = ''CR'',
           narration = [], category = ''transfer'', bank_type = ''generic'',
           original_match = []\<rparr>" "''donation_income''"]
        generate_journal_entry_balanced
          [of "\<lparr>date = Parsed (2024, 3, 16), date_original = ''16/03/2024'',
           description = ''ATM Cash Withdrawal'', transaction_code = [],
           amount = Some (float_of_frac False 2000 1), amount_original = ''2000.00'', txn_type = ''DR'',
           narration = [], category = ''cash_withdrawal'', bank_type = ''generic'',
           original_match = []\<rparr>" "''cash_withdrawal''"]
  by (auto simp: upper_def to_upper_def is_lower_def)

section \<open>Short lines match nothing\<close>

text \<open>
  C10. A line whose stripped form has fewer than 10 characters (the empty line among
  them) gives no match, for every bank type.
\<close>

theorem match_transaction_short_line:
  "length (strip line) < 10 \<Longrightarrow> match_transaction line bank = None"
  by (simp add: match_transaction_def Let_def)

theorem match_transaction_short_line_witness:
  "length (strip ''  1/1/24 x '') < 10 \<and> match_transaction ''  1/1/24 x '' ''hdfc'' = None
   \<and> match_transaction [] ''generic'' = None"
  using match_transaction_short_line [of "''  1/1/24 x ''" "''hdfc''"]
        match_transaction_short_line [of "[]" "''generic''"]
  by (simp add: strip_def is_space_def)

section \<open>Amounts in parentheses\<close>

lemma clean_amount_paren: "clean_amount_string ''(1,234.56)'' = Some ''1,234.56''"
  by code_simp

lemma replace_commas_ex: "replace '','' [] ''1,234.56'' = ''1234.56''"
  by code_simp

lemma py_float_ex: "py_float ''1234.56'' = Some (float_of_frac False 123456 100)"
  by (simp add: py_float_def scan_number_def scan_sign_def scan_exponent_def strip_def is_space_def
      is_digit_def lower_def to_lower_def is_upper_def nat_of_digits_def digit_val_def)

lemma fl_ex: "float_of_frac False 123456 100 = Fin False 5429652300748554 (- 42)"
  by (simp add: float_of_frac_def ulp_exp_def mantissa_def div_half_even_def bitlen.simps Let_def)

lemma fl_ex_neg: "float_of_frac True 123456 100 = Fin True 5429652300748554 (- 42)"
  by (simp add: float_of_frac_def ulp_exp_def mantissa_def div_half_even_def bitlen.simps Let_def)

lemma round2_ex: "round2 (Fin False 5429652300748554 (- 42)) = Fin False 5429652300748554 (- 42)"
  by (simp add: round2_def cents_def div_half_even_def fl_ex)

text \<open>
  C4. The claim is that \<open>parse_amount\<close> reads \<open>(1,234.56)\<close> as the negative number
  -1234.56. It does not: the minus sign that \<open>_clean_amount_string\<close> puts in place of
  the parentheses is outside every amount pattern, the search returns \<open>1,234.56\<close>, and
  the result is the double nearest to 1234.56, not the one nearest to -1234.56.
\<close>

theorem parse_amount_parentheses_positive:
  "parse_amount ''(1,234.56)'' = Some (float_of_frac False 123456 100)
   \<and> parse_amount ''(1,234.56)'' \<noteq> Some (float_of_frac True 123456 100)"
  by (simp add: parse_amount_def clean_amount_paren replace_commas_ex py_float_ex fl_ex fl_ex_neg round2_ex)

section \<open>Keyword categories by priority\<close>

lemma hd_sort_key_first_min:
  "xs \<noteq> [] \<Longrightarrow>
   \<exists>i<length xs. hd (sort_key f xs) = xs ! i \<and> (\<forall>j<length xs. f (xs ! i) \<le> f (xs ! j))
      \<and> (\<forall>j<i. f (xs ! i) < f (xs ! j))"
proof (induction xs)
  case Nil
  then show ?case by simp
next
  case (Cons x xs)
  show ?case
  proof (cases "xs = []")
    case True
    then show ?thesis by simp
  next
    case False
    from Cons.IH [OF False] obtain i where i: "i < length xs" "hd (sort_key f xs) = xs ! i"
      "\<forall>j<length xs. f (xs ! i) \<le> f (xs ! j)" "\<forall>j<i. f (xs ! i) < f (xs ! j)"
      by blast
    have ne: "sort_key f xs \<noteq> []" using False by (metis length_0_conv length_sort)
    have hd_ins: "hd (insort_key f x (sort_key f xs)) =
        (if f x \<le> f (hd (sort_key f xs)) then x else hd (sort_key f xs))"
      using ne by (cases "sort_key f xs") auto
    show ?thesis
    proof (cases "f x \<le> f (xs ! i)")
      case True
      have "\<forall>j<length (x # xs). f ((x # xs) ! 0) \<le> f ((x # xs) ! j)"
      proof (intro allI impI)
        fix j assume "j < length (x # xs)"
        then show "f ((x # xs) ! 0) \<le> f ((x # xs) ! j)"
          using True i(3) by (cases j) (auto intro: order_trans)
      qed
      moreover have "hd (sort_key f (x # xs)) = (x # xs) ! 0"
        using True hd_ins i(2) by simp
      ultimately show ?thesis by (intro exI [of _ 0]) simp
    next
      case False
      then have lt: "f (xs ! i) < f x" by simp
      have h: "hd (sort_key f (x # xs)) = (x # xs) ! Suc i"
        using False hd_ins i(2) by simp
      have a: "\<forall>j<length (x # xs). f ((x # xs) ! Suc i) \<le> f ((x # xs) ! j)"
      proof (intro allI impI)
        fix j assume "j < length (x # xs)"
        then show "f ((x # xs) ! Suc i) \<le> f ((x # xs) ! j)"
          using lt i(3) by (cases j) auto
      qed
      have b: "\<forall>j<Suc i. f ((x # xs) ! Suc i) < f ((x # xs) ! j)"
      proof (intro allI impI)
        fix j assume "j < Suc i"
        then show "f ((x # xs) ! Suc i) < f ((x # xs) ! j)"
          using lt i(4) by (cases j) auto
      qed
      show ?thesis using h a b i(1) by (intro exI [of _ "Suc i"]) simp
    qed
  qed
qed

lemma mset_matched_categories:
  "mset cats' = mset cats \<Longrightarrow>
   mset (matched_categories cats' desc) = mset (matched_categories cats desc)"
  by (simp add: matched_categories_def)

text \<open>
  C7. When at least one category has a keyword in the description, exact-keyword
  categorization returns a matched category of the lowest priority number, and among
  the matched categories of that number the one declared first: every matched category
  before it in the declaration order has a strictly higher number. The lowest number is
  selected whatever the iteration order: for any reordering \<open>cats'\<close> of the categories
  the result is a matched category whose priority number is the least.
\<close>

theorem exact_keyword_match_lowest_priority:
  assumes "matched_categories cats desc \<noteq> []" and "mset cats' = mset cats"
  shows "(\<exists>i<length (matched_categories cats desc).
            exact_keyword_match cats desc = Some (fst (matched_categories cats desc ! i))
          \<and> (\<forall>j<length (matched_categories cats desc).
                snd (matched_categories cats desc ! i) \<le> snd (matched_categories cats desc ! j))
          \<and> (\<forall>j<i. snd (matched_categories cats desc ! i) < snd (matched_categories cats desc ! j)))
       \<and> (\<exists>n p. exact_keyword_match cats' desc = Some n
          \<and> (n, p) \<in> set (matched_categories cats desc)
          \<and> (\<forall>q\<in>snd ` set (matched_categories cats desc). p \<le> q))"
proof -
  have sel: "exact_keyword_match cs desc = Some (fst (hd (sort_key snd (matched_categories cs desc))))"
    if "matched_categories cs desc \<noteq> []" for cs
  proof -
    have "sort_key snd (matched_categories cs desc) \<noteq> []"
      using that by (metis length_0_conv length_sort)
    then show ?thesis
      unfolding exact_keyword_match_def by (cases "sort_key snd (matched_categories cs desc)") auto
  qed
  have first: "\<exists>i<length (matched_categories cats desc).
            exact_keyword_match cats desc = Some (fst (matched_categories cats desc ! i))
          \<and> (\<forall>j<length (matched_categories cats desc).
                snd (matched_categories cats desc ! i) \<le> snd (matched_categories cats desc ! j))
          \<and> (\<forall>j<i. snd (matched_categories cats desc ! i) < snd (matched_categories cats desc ! j))"
    using hd_sort_key_first_min [OF assms(1), of snd] sel [OF assms(1)] by auto
  have eq: "mset (matched_categories cats' desc) = mset (matched_categories cats desc)"
    using assms(2) by (rule mset_matched_categories)
  then have seteq: "set (matched_categories cats' desc) = set (matched_categories cats desc)"
    by (rule mset_eq_setD)
  have ne': "matched_categories cats' desc \<noteq> []"
    using eq assms(1) by (metis mset_zero_iff)
  from hd_sort_key_first_min [OF ne', of snd] obtain i where
    i: "i < length (matched_categories cats' desc)"
       "hd (sort_key snd (matched_categories cats' desc)) = matched_categories cats' desc ! i"
       "\<forall>j<length (matched_categories cats' desc).
          snd (matched_categories cats' desc ! i) \<le> snd (matched_categories cats' desc ! j)"
    by blast
  let ?r = "matched_categories cats' desc ! i"
  have mem: "?r \<in> set (matched_categories cats desc)"
    using i(1) seteq nth_mem by blast
  have min: "\<forall>q\<in>snd ` set (matched_categories cats desc). snd ?r \<le> q"
    using i(3) seteq by (metis (no_types, lifting) imageE in_set_conv_nth)
  have "exact_keyword_match cats' desc = Some (fst ?r)"
    using sel [OF ne'] i(2) by simp
  moreover have "(fst ?r, snd ?r) \<in> set (matched_categories cats desc)"
    using mem by simp
  ultimately have "\<exists>n p. exact_keyword_match cats' desc = Some n
          \<and> (n, p) \<in> set (matched_categories cats desc)
          \<and> (\<forall>q\<in>snd ` set (matched_categories cats desc). p \<le> q)"
    using min by blast
  with first show ?thesis by blast
qed

lemma matched_default_example:
  "matched_categories default_categories ''bus atm upi''
     = [(''transport_expense'', 2), (''cash_withdrawal'', 1), (''bank_transfer'', 1)]"
  by code_simp

theorem exact_keyword_match_lowest_priority_witness:
  "matched_categories default_categories ''bus atm upi'' \<noteq> []
   \<and> mset (rev default_categories) = mset default_categories
   \<and> (\<exists>i<length (matched_categories default_categories ''bus atm upi'').
            exact_keyword_match default_categories ''bus atm upi''
              = Some (fst (matched_categories default_categories ''bus atm upi'' ! i))
          \<and> (\<forall>j<length (matched_categories default_categories ''bus atm upi'').
                snd (matched_categories default_categories ''bus atm upi'' ! i)
                  \<le> snd (matched_categories default_categories ''bus atm upi'' ! j))
          \<and> (\<forall>j<i. snd (matched_categories default_categories ''bus atm upi'' ! i)
                  < snd (matched_categories default_categories ''bus atm upi'' ! j)))
   \<and> (\<exists>n p. exact_keyword_match (rev default_categories) ''bus atm upi'' = Some n
          \<and> (n, p) \<in> set (matched_categories default_categories ''bus atm upi'')
          \<and> (\<forall>q\<in>snd ` set (matched_categories default_categories ''bus atm upi''). p \<le> q))"
proof -
  have ne: "matched_categories default_categories ''bus atm upi'' \<noteq> []"
    by (simp add: matched_default_example)
  have perm: "mset (rev default_categories) = mset default_categories"
    by simp
  show ?thesis
    using ne perm exact_keyword_match_lowest_priority [OF ne perm] by blast
qed

end
